theory Spec2Isabelle
  imports Main "HOL-Library.Multiset" "HOL-Library.Product_Lexorder"
begin

section \<open>Data model (src/src/db.ts, the SQL schema of the setup notes)\<close>

text \<open>
  The ledger service keeps two relations in a remote store: the append-only
  \<open>transactions\<close> log, keyed by \<open>id\<close>, and the \<open>accounts\<close> table, keyed by
  \<open>account_id\<close>. Amounts are JavaScript numbers on the wire and \<open>NUMERIC\<close> in
  the store; here they are exact integers (minor units), so rounding of binary
  floating point is outside this development. \<open>created_at\<close> is a store-assigned
  \<open>TIMESTAMPTZ\<close> (nullable in the schema); it is a natural number of clock
  ticks here, and the text form returned to the client is taken to be ordered
  as the timestamps are.
\<close>

record Transaction =
  tx_id :: string
  tx_type :: string
  tx_amount :: int
  tx_accountId :: string
  tx_timestamp :: string

record DatabaseTransaction =
  row_id :: string
  row_type :: string
  row_amount :: int
  row_account_id :: string
  row_timestamp :: string
  row_created_at :: "nat option"

text \<open>
  The \<open>accounts\<close> table maps \<open>account_id\<close> to \<open>balance\<close>; the column
  \<open>updated_at\<close> is written but never read by the program and is left out.
\<close>

record database =
  accounts :: "string \<rightharpoonup> int"
  transactions :: "DatabaseTransaction list"

datatype error = Error string

datatype console_entry =
    console_log string
  | console_warn string "string option"
  | console_error string string

text \<open>
  The state a request runs against: the module-level client singleton
  \<open>supabase\<close> (\<open>None\<close> is \<open>null\<close>), the remote store, the console output, and
  an oracle \<open>faults\<close> for the store round trips: each round trip consumes the
  head, \<open>Some msg\<close> meaning that the store answered with an error carrying
  \<open>msg\<close> (other than the duplicate-key and no-row answers, which follow from
  the store's contents), and an exhausted oracle meaning no further failure.
  A failed round trip leaves the store as it was.
\<close>

record world =
  supabase :: "(string \<times> string) option"
  db :: database
  faults :: "string option list"
  console :: "console_entry list"

text \<open>
  What the process reads from outside: its environment variables, the store's
  clock at the time of an insert (\<open>NOW()\<close>), the process clock rendered by
  \<open>toISOString\<close>, and whether the 3000 ms timer of a withdraw request fires
  before the reservation check settles.
\<close>

record env =
  SUPABASE_URL :: "string option"
  SUPABASE_SERVICE_ROLE_KEY :: "string option"
  PORT :: "string option"
  NODE_ENV :: "string option"
  db_now :: nat
  date_now :: string
  timer_first :: bool

record response =
  status :: nat
  message :: "string option"
  error_detail :: "string option"

section \<open>Asynchronous calls that may throw\<close>

type_synonym 'a io = "world \<Rightarrow> (error + 'a) \<times> world"

definition return :: "'a \<Rightarrow> 'a io" where
  "return x w = (Inr x, w)"

definition throw :: "error \<Rightarrow> 'a io" where
  "throw e w = (Inl e, w)"

definition bind :: "'a io \<Rightarrow> ('a \<Rightarrow> 'b io) \<Rightarrow> 'b io" where
  "bind m f w = (case m w of (Inl e, w') \<Rightarrow> (Inl e, w') | (Inr x, w') \<Rightarrow> f x w')"

definition console_write :: "console_entry \<Rightarrow> unit io" where
  "console_write l w = (Inr (), w\<lparr>console := console w @ [l]\<rparr>)"

definition store_call :: "string option io" where
  "store_call w =
     (case faults w of
        [] \<Rightarrow> (Inr None, w)
      | f # fs \<Rightarrow> (Inr f, w\<lparr>faults := fs\<rparr>))"

section \<open>src/src/db.ts\<close>

text \<open>
  \<open>getSupabaseClient\<close>: the lazily created singleton. \<open>!url\<close> holds for an unset
  and for an empty variable; \<open>createClient\<close> is taken to succeed.
\<close>

definition falsy :: "string option \<Rightarrow> bool" where
  "falsy v = (case v of None \<Rightarrow> True | Some s \<Rightarrow> s = [])"

definition getSupabaseClient :: "env \<Rightarrow> unit io" where
  "getSupabaseClient e w =
     (if supabase w = None then
        (if falsy (SUPABASE_URL e) \<or> falsy (SUPABASE_SERVICE_ROLE_KEY e) then
           throw (Error ''Missing Supabase credentials: SUPABASE_URL and SUPABASE_SERVICE_ROLE_KEY must be set'') w
         else
           (Inr (), w\<lparr>supabase :=
              Some (the (SUPABASE_URL e), the (SUPABASE_SERVICE_ROLE_KEY e))\<rparr>))
      else (Inr (), w))"

definition dbTransaction :: "env \<Rightarrow> Transaction \<Rightarrow> DatabaseTransaction" where
  "dbTransaction e t =
     \<lparr>row_id = tx_id t, row_type = tx_type t, row_amount = tx_amount t,
      row_account_id = tx_accountId t, row_timestamp = tx_timestamp t,
      row_created_at = Some (db_now e)\<rparr>"

definition id_exists :: "database \<Rightarrow> string \<Rightarrow> bool" where
  "id_exists d i = (\<exists>r \<in> set (transactions d). row_id r = i)"

definition insert_row :: "DatabaseTransaction \<Rightarrow> world \<Rightarrow> world" where
  "insert_row r w = w\<lparr>db := (db w)\<lparr>transactions := transactions (db w) @ [r]\<rparr>\<rparr>"

definition insertTransaction :: "env \<Rightarrow> Transaction \<Rightarrow> unit io" where
  "insertTransaction e t =
     bind (getSupabaseClient e) (\<lambda>_.
     bind store_call (\<lambda>err.
       case err of
         Some msg \<Rightarrow> throw (Error (''Failed to insert transaction: '' @ msg))
       | None \<Rightarrow> (\<lambda>w.
           if id_exists (db w) (tx_id t) then
             console_write (console_log (''Transaction '' @ tx_id t @ '' already exists, skipping'')) w
           else (Inr (), insert_row (dbTransaction e t) w))))"

definition getAccountBalance :: "env \<Rightarrow> string \<Rightarrow> int io" where
  "getAccountBalance e accountId =
     bind (getSupabaseClient e) (\<lambda>_.
     bind store_call (\<lambda>err.
       case err of
         Some msg \<Rightarrow> throw (Error (''Failed to get account balance: '' @ msg))
       | None \<Rightarrow> (\<lambda>w.
           case accounts (db w) accountId of
             None \<Rightarrow> (Inr 0, w)
           | Some balance \<Rightarrow> (Inr (if balance = 0 then 0 else balance), w))))"

definition upsert_account :: "string \<Rightarrow> int \<Rightarrow> world \<Rightarrow> world" where
  "upsert_account accountId newBalance w =
     w\<lparr>db := (db w)\<lparr>accounts := (accounts (db w))(accountId \<mapsto> newBalance)\<rparr>\<rparr>"

definition updateAccountBalance :: "env \<Rightarrow> string \<Rightarrow> int \<Rightarrow> unit io" where
  "updateAccountBalance e accountId newBalance =
     bind (getSupabaseClient e) (\<lambda>_.
     bind store_call (\<lambda>err.
       case err of
         Some msg \<Rightarrow> throw (Error (''Failed to update account balance: '' @ msg))
       | None \<Rightarrow> (\<lambda>w. (Inr (), upsert_account accountId newBalance w))))"

definition incrementAccountBalance :: "env \<Rightarrow> string \<Rightarrow> int \<Rightarrow> unit io" where
  "incrementAccountBalance e accountId amount =
     bind (getSupabaseClient e) (\<lambda>_.
     bind (getAccountBalance e accountId) (\<lambda>currentBalance.
     updateAccountBalance e accountId (currentBalance + amount)))"

definition decrementAccountBalance :: "env \<Rightarrow> string \<Rightarrow> int \<Rightarrow> unit io" where
  "decrementAccountBalance e accountId amount =
     bind (getSupabaseClient e) (\<lambda>_.
     bind (getAccountBalance e accountId) (\<lambda>currentBalance.
     updateAccountBalance e accountId (currentBalance - amount)))"

subsection \<open>The atomic reservation check: SQL function \<open>check_withdraw_request\<close>\<close>

text \<open>
  \<open>w.created_at >= t.created_at\<close> in a \<open>WHERE\<close> clause: a comparison with
  \<open>NULL\<close> is not true.
\<close>

definition sql_ge :: "nat option \<Rightarrow> nat option \<Rightarrow> bool" where
  "sql_ge a b =
     (case a of None \<Rightarrow> False
      | Some x \<Rightarrow> (case b of None \<Rightarrow> False | Some y \<Rightarrow> y \<le> x))"

definition v_pending_amount :: "database \<Rightarrow> string \<Rightarrow> int" where
  "v_pending_amount d p_account_id =
     sum_list (map row_amount
       (filter (\<lambda>t. row_account_id t = p_account_id
                   \<and> row_type t = ''withdraw_request''
                   \<and> \<not> (\<exists>w \<in> set (transactions d).
                           row_account_id w = row_account_id t
                         \<and> row_type w = ''withdraw''
                         \<and> sql_ge (row_created_at w) (row_created_at t)))
          (transactions d)))"

definition check_withdraw_request :: "string \<Rightarrow> int \<Rightarrow> database \<Rightarrow> bool \<times> database" where
  "check_withdraw_request p_account_id p_requested_amount d =
     (let (v_current_balance, d') =
            (case accounts d p_account_id of
               None \<Rightarrow> (0, d\<lparr>accounts := (accounts d)(p_account_id \<mapsto> 0)\<rparr>)
             | Some b \<Rightarrow> (b, d));
          v_available_balance = v_current_balance - v_pending_amount d' p_account_id
      in (p_requested_amount \<le> v_available_balance, d'))"

subsection \<open>The fallback check\<close>

text \<open>
  \<open>.eq("account_id", a).eq("type", ty).order("created_at", {ascending: true})\<close>:
  the rows of one account and one type, by \<open>created_at\<close>, \<open>NULL\<close> last.
\<close>

definition created_at_key :: "DatabaseTransaction \<Rightarrow> nat \<times> nat" where
  "created_at_key r = (case row_created_at r of None \<Rightarrow> (1, 0) | Some c \<Rightarrow> (0, c))"

definition select_transactions :: "database \<Rightarrow> string \<Rightarrow> string \<Rightarrow> DatabaseTransaction list" where
  "select_transactions d accountId ty =
     sort_key created_at_key
       (filter (\<lambda>r. row_account_id r = accountId \<and> row_type r = ty) (transactions d))"

definition hasCorrespondingWithdraw ::
  "DatabaseTransaction list \<Rightarrow> DatabaseTransaction \<Rightarrow> bool" where
  "hasCorrespondingWithdraw withdraws request =
     list_ex (\<lambda>w.
       case row_created_at w of None \<Rightarrow> False
       | Some wc \<Rightarrow> (case row_created_at request of None \<Rightarrow> False | Some rc \<Rightarrow> rc \<le> wc))
       withdraws"

definition pendingAmount ::
  "DatabaseTransaction list \<Rightarrow> DatabaseTransaction list \<Rightarrow> int" where
  "pendingAmount withdrawRequests withdraws =
     foldl (\<lambda>pending request.
              if \<not> hasCorrespondingWithdraw withdraws request
              then pending + row_amount request else pending)
       0 withdrawRequests"

definition checkAndReserveBalanceFallback :: "env \<Rightarrow> string \<Rightarrow> int \<Rightarrow> bool io" where
  "checkAndReserveBalanceFallback e accountId requestedAmount =
     bind (getSupabaseClient e) (\<lambda>_.
     bind (getAccountBalance e accountId) (\<lambda>currentBalance.
     bind store_call (\<lambda>reqError.
       case reqError of
         Some msg \<Rightarrow> throw (Error (''Failed to check pending withdraw requests: '' @ msg))
       | None \<Rightarrow> (\<lambda>w.
           let withdrawRequests = select_transactions (db w) accountId ''withdraw_request'' in
           bind store_call (\<lambda>withdrawError.
             case withdrawError of
               Some msg \<Rightarrow> throw (Error (''Failed to check withdraws: '' @ msg))
             | None \<Rightarrow> (\<lambda>w'.
                 let withdraws = select_transactions (db w') accountId ''withdraw'';
                     availableBalance = currentBalance - pendingAmount withdrawRequests withdraws
                 in (Inr (requestedAmount \<le> availableBalance), w'))) w))))"

definition checkAndReserveBalance :: "env \<Rightarrow> string \<Rightarrow> int \<Rightarrow> bool io" where
  "checkAndReserveBalance e accountId requestedAmount =
     bind (getSupabaseClient e) (\<lambda>_.
     bind store_call (\<lambda>err.
       case err of
         Some msg \<Rightarrow>
           bind (console_write
                   (console_warn ''RPC function not available, using fallback method:'' (Some msg)))
             (\<lambda>_. checkAndReserveBalanceFallback e accountId requestedAmount)
       | None \<Rightarrow> (\<lambda>w.
           case check_withdraw_request accountId requestedAmount (db w) of
             (data, d') \<Rightarrow> (Inr data, w\<lparr>db := d'\<rparr>))))"

section \<open>The server: \<open>POST /transaction\<close>, \<open>GET /account/:accountId\<close>, startup\<close>

definition respond :: "nat \<Rightarrow> response" where
  "respond code = \<lparr>status = code, message = None, error_detail = None\<rparr>"

text \<open>
  \<open>Promise.race([checkAndReserveBalance(...), timeoutPromise])\<close>. The check
  runs up to its first store round trip before the race starts, so a rejection
  raised by \<open>getSupabaseClient\<close> settles the race at once. Otherwise the timer
  wins when \<open>timer_first\<close> says so; the check then still runs to its end and
  only its answer is dropped.
\<close>

definition Promise_race :: "env \<Rightarrow> bool io \<Rightarrow> bool io" where
  "Promise_race e check w =
     (case getSupabaseClient e w of
        (Inl err, _) \<Rightarrow> check w
      | (Inr _, _) \<Rightarrow>
          (case check w of
             (r, w') \<Rightarrow> if timer_first e then (Inl (Error ''Timeout''), w') else (r, w')))"

definition deposit_case :: "env \<Rightarrow> Transaction \<Rightarrow> response io" where
  "deposit_case e t =
     bind (insertTransaction e t) (\<lambda>_.
     bind (console_write (console_log (''Transaction '' @ tx_id t @ '' inserted into log''))) (\<lambda>_.
     bind (incrementAccountBalance e (tx_accountId t) (tx_amount t)) (\<lambda>_.
     bind (getAccountBalance e (tx_accountId t)) (\<lambda>newBalance.
     bind (console_write (console_log (''Deposit successful: '' @ tx_id t))) (\<lambda>_.
     return (respond 200))))))"

definition withdraw_request_try :: "env \<Rightarrow> Transaction \<Rightarrow> response io" where
  "withdraw_request_try e t =
     bind (console_write (console_log (''Checking withdraw_request: '' @ tx_id t))) (\<lambda>_.
     bind (Promise_race e (checkAndReserveBalance e (tx_accountId t) (tx_amount t))) (\<lambda>approved.
     bind (getAccountBalance e (tx_accountId t)) (\<lambda>currentBalance.
       if approved then
         bind (insertTransaction e t) (\<lambda>_.
         bind (console_write (console_log (''Withdraw request APPROVED: '' @ tx_id t))) (\<lambda>_.
         return (respond 201)))
       else
         bind (insertTransaction e t) (\<lambda>_.
         bind (console_write (console_log (''Withdraw request DENIED: '' @ tx_id t))) (\<lambda>_.
         return (respond 402))))))"

definition withdraw_request_case :: "env \<Rightarrow> Transaction \<Rightarrow> response io" where
  "withdraw_request_case e t w =
     (case withdraw_request_try e t w of
        (Inl (Error msg), w') \<Rightarrow>
          if msg = ''Timeout'' then
            bind (console_write (console_warn (''Withdraw request TIMEOUT: '' @ tx_id t) None))
              (\<lambda>_. return (respond 402)) w'
          else throw (Error msg) w'
      | (Inr r, w') \<Rightarrow> (Inr r, w'))"

definition withdraw_case :: "env \<Rightarrow> Transaction \<Rightarrow> response io" where
  "withdraw_case e t =
     bind (insertTransaction e t) (\<lambda>_.
     bind (console_write (console_log (''Transaction '' @ tx_id t @ '' inserted into log''))) (\<lambda>_.
     bind (decrementAccountBalance e (tx_accountId t) (tx_amount t)) (\<lambda>_.
     bind (getAccountBalance e (tx_accountId t)) (\<lambda>newBalance.
     bind (console_write (console_log (''Withdraw successful: '' @ tx_id t))) (\<lambda>_.
     return (respond 200))))))"

definition transaction_switch :: "env \<Rightarrow> Transaction \<Rightarrow> response io" where
  "transaction_switch e t =
     bind (console_write (console_log (''Processing transaction: '' @ tx_id t))) (\<lambda>_.
       if tx_type t = ''deposit'' then deposit_case e t
       else if tx_type t = ''withdraw_request'' then withdraw_request_case e t
       else if tx_type t = ''withdraw'' then withdraw_case e t
       else
         bind (console_write (console_warn (''Invalid transaction type: '' @ tx_type t) None)) (\<lambda>_.
         return \<lparr>status = 400, message = Some ''Invalid transaction type'', error_detail = None\<rparr>))"

text \<open>
  The handler of \<open>POST /transaction\<close>: the \<open>switch\<close> inside \<open>try\<close>, and the
  \<open>catch\<close> that answers 500 with the error's message. The echo of the
  transaction in the 400 body and the detail objects passed to the console
  (ids, amounts, durations) are left out; the error text of a detail object is
  kept. The request-logging middleware only prints and is not modelled. The
  second server source of the repository is this handler without its console
  output and without the balance reads that follow the check and the update.
\<close>

definition handler_catch :: "Transaction \<Rightarrow> (error + response) \<times> world \<Rightarrow> response \<times> world" where
  "handler_catch t rw =
     (case rw of
        (Inr r, w') \<Rightarrow> (r, w')
      | (Inl (Error msg), w') \<Rightarrow>
          (\<lparr>status = 500, message = Some ''Internal server error'', error_detail = Some msg\<rparr>,
           w'\<lparr>console := console w' @
                 [console_error (''Error processing transaction '' @ tx_id t @ '':'') msg]\<rparr>))"

definition post_transaction :: "env \<Rightarrow> Transaction \<Rightarrow> world \<Rightarrow> response \<times> world" where
  "post_transaction e t w = handler_catch t (transaction_switch e t w)"

definition get_account :: "env \<Rightarrow> string \<Rightarrow> world \<Rightarrow> (response \<times> int option) \<times> world" where
  "get_account e accountId w =
     (case getAccountBalance e accountId w of
        (Inr balance, w') \<Rightarrow>
          ((respond 200, Some balance),
           w'\<lparr>console := console w' @ [console_log (''Balance retrieved for account: '' @ accountId)]\<rparr>)
      | (Inl (Error msg), w') \<Rightarrow>
          ((\<lparr>status = 500, message = Some ''Internal server error'', error_detail = Some msg\<rparr>, None),
           w'\<lparr>console := console w' @
                 [console_error (''Error getting account balance for '' @ accountId @ '':'') msg]\<rparr>))"

text \<open>
  Loading the server module and \<open>app.listen(PORT, ...)\<close>: the module sets
  \<open>supabase\<close> to \<open>null\<close>, registers the routes and listens; the callback prints
  the banner. Nothing on this path calls \<open>getSupabaseClient\<close>. The result
  \<open>Inr ()\<close> is a listening server.
\<close>

definition configured :: "string option \<Rightarrow> string" where
  "configured v = (if falsy v then ''NOT SET'' else ''Configured'')"

definition or_default :: "string option \<Rightarrow> string \<Rightarrow> string" where
  "or_default v d = (if falsy v then d else the v)"

definition app_listen :: "env \<Rightarrow> unit io" where
  "app_listen e w =
     (Inr (), w\<lparr>supabase := None,
               console := console w @
                 [console_log (replicate 50 CHR ''=''),
                  console_log ''Server started successfully'',
                  console_log (''Port: '' @ or_default (PORT e) ''3000''),
                  console_log (''Environment: '' @ or_default (NODE_ENV e) ''development''),
                  console_log (''Supabase URL: '' @ configured (SUPABASE_URL e)),
                  console_log (''Supabase Key: '' @ configured (SUPABASE_SERVICE_ROLE_KEY e)),
                  console_log (''Timestamp: '' @ date_now e),
                  console_log (replicate 50 CHR ''='')]\<rparr>)"

section \<open>Requests in flight together\<close>

text \<open>
  Node runs a handler until its next \<open>await\<close> and may then run another
  request's handler. A task is a deposit or withdraw request between two
  awaits; one step performs the next store round trip of the handler together
  with the code around it. A request of another type is answered in a single
  step.
\<close>

datatype task =
    Start Transaction
  | Inserted Transaction
  | Balance_read Transaction int
  | Balance_written Transaction
  | Responded response

definition task_await ::
  "Transaction \<Rightarrow> (error + 'a) \<times> world \<Rightarrow> ('a \<Rightarrow> task) \<Rightarrow> task \<times> world" where
  "task_await t rw k =
     (case rw of
        (Inl err, w') \<Rightarrow> (case handler_catch t (Inl err, w') of (r, w'') \<Rightarrow> (Responded r, w''))
      | (Inr x, w') \<Rightarrow> (k x, w'))"

definition task_step :: "env \<Rightarrow> task \<Rightarrow> world \<Rightarrow> task \<times> world" where
  "task_step e tk w =
     (case tk of
        Start t \<Rightarrow>
          if tx_type t = ''deposit'' \<or> tx_type t = ''withdraw'' then
            task_await t
              (bind (console_write (console_log (''Processing transaction: '' @ tx_id t))) (\<lambda>_.
               bind (insertTransaction e t) (\<lambda>_.
               console_write (console_log (''Transaction '' @ tx_id t @ '' inserted into log'')))) w)
              (\<lambda>_. Inserted t)
          else (case post_transaction e t w of (r, w') \<Rightarrow> (Responded r, w'))
      | Inserted t \<Rightarrow>
          task_await t
            (bind (getSupabaseClient e) (\<lambda>_. getAccountBalance e (tx_accountId t)) w)
            (\<lambda>currentBalance. Balance_read t currentBalance)
      | Balance_read t currentBalance \<Rightarrow>
          task_await t
            (updateAccountBalance e (tx_accountId t)
               (if tx_type t = ''deposit'' then currentBalance + tx_amount t
                else currentBalance - tx_amount t) w)
            (\<lambda>_. Balance_written t)
      | Balance_written t \<Rightarrow>
          task_await t
            (bind (getAccountBalance e (tx_accountId t)) (\<lambda>newBalance.
             bind (console_write (console_log
                     ((if tx_type t = ''deposit'' then ''Deposit successful: ''
                       else ''Withdraw successful: '') @ tx_id t))) (\<lambda>_.
             return (respond 200))) w)
            Responded
      | Responded r \<Rightarrow> (Responded r, w))"

text \<open>A schedule names, step by step, the task that runs next.\<close>

fun run :: "env \<Rightarrow> nat list \<Rightarrow> task list \<Rightarrow> world \<Rightarrow> task list \<times> world" where
  "run e [] tasks w = (tasks, w)"
| "run e (i # sched) tasks w =
     (if i < length tasks then
        (case task_step e (tasks ! i) w of (tk, w') \<Rightarrow> run e sched (tasks[i := tk]) w')
      else run e sched tasks w)"

section \<open>Notions used in the statements\<close>

text \<open>The balance a reader of the store sees: 0 for an account without a row.\<close>

definition balance_of :: "database \<Rightarrow> string \<Rightarrow> int" where
  "balance_of d a = (case accounts d a of None \<Rightarrow> 0 | Some b \<Rightarrow> b)"



definition has_credentials :: "env \<Rightarrow> bool" where
  "has_credentials e =
     (\<not> falsy (SUPABASE_URL e) \<and> \<not> falsy (SUPABASE_SERVICE_ROLE_KEY e))"

text \<open>The client exists already or can be created from the environment.\<close>

definition client_available :: "env \<Rightarrow> world \<Rightarrow> bool" where
  "client_available e w = (supabase w \<noteq> None \<or> has_credentials e)"

definition recognized :: "string \<Rightarrow> bool" where
  "recognized ty = (ty = ''deposit'' \<or> ty = ''withdraw_request'' \<or> ty = ''withdraw'')"

text \<open>The next answer of the fault oracle, and the state changes of the store calls.\<close>

definition next_fault :: "world \<Rightarrow> string option" where
  "next_fault w = (case faults w of [] \<Rightarrow> None | f # _ \<Rightarrow> f)"

definition connect :: "env \<Rightarrow> world \<Rightarrow> world" where
  "connect e w =
     w\<lparr>supabase := (case supabase w of
                       None \<Rightarrow> Some (the (SUPABASE_URL e), the (SUPABASE_SERVICE_ROLE_KEY e))
                     | Some c \<Rightarrow> Some c)\<rparr>"

definition after_call :: "env \<Rightarrow> world \<Rightarrow> world" where
  "after_call e w = (connect e w)\<lparr>faults := tl (faults w)\<rparr>"

definition emit :: "console_entry \<Rightarrow> world \<Rightarrow> world" where
  "emit l w = w\<lparr>console := console w @ [l]\<rparr>"

text \<open>
  The effect of a successful \<open>rpc("check_withdraw_request")\<close> and of a
  successful \<open>insertTransaction\<close> on the state.
\<close>

definition rpc_result :: "string \<Rightarrow> int \<Rightarrow> world \<Rightarrow> world" where
  "rpc_result a A w = w\<lparr>db := snd (check_withdraw_request a A (db w))\<rparr>"

definition logged :: "env \<Rightarrow> Transaction \<Rightarrow> world \<Rightarrow> world" where
  "logged e t w =
     (if id_exists (db w) (tx_id t)
      then emit (console_log (''Transaction '' @ tx_id t @ '' already exists, skipping'')) w
      else insert_row (dbTransaction e t) w)"

definition missing_credentials :: string where
  "missing_credentials =
     ''Missing Supabase credentials: SUPABASE_URL and SUPABASE_SERVICE_ROLE_KEY must be set''"

text \<open>The balance change a deposit or a withdraw asks for.\<close>

definition delta :: "Transaction \<Rightarrow> int" where
  "delta t = (if tx_type t = ''deposit'' then tx_amount t else - tx_amount t)"

subsection \<open>Concrete inputs\<close>

definition env0 :: env where
  "env0 = \<lparr>SUPABASE_URL = Some ''https://ledger.supabase.co'',
           SUPABASE_SERVICE_ROLE_KEY = Some ''service-role-key'',
           PORT = None, NODE_ENV = None, db_now = 1,
           date_now = ''2024-01-01T00:00:00.000Z'', timer_first = False\<rparr>"

definition env_missing :: env where
  "env_missing = env0\<lparr>SUPABASE_URL := None, SUPABASE_SERVICE_ROLE_KEY := Some ''''\<rparr>"

definition world0 :: world where
  "world0 = \<lparr>supabase = None, db = \<lparr>accounts = Map.empty, transactions = []\<rparr>,
             faults = [], console = []\<rparr>"

definition world1 :: world where
  "world1 = \<lparr>supabase = None,
             db = \<lparr>accounts = [''acc1'' \<mapsto> 100],
                   transactions =
                     [\<lparr>row_id = ''t2'', row_type = ''withdraw_request'', row_amount = 60,
                       row_account_id = ''acc1'', row_timestamp = ''2024-01-01T00:00:00Z'',
                       row_created_at = Some 0\<rparr>]\<rparr>,
             faults = [], console = []\<rparr>"

definition tx :: "string \<Rightarrow> string \<Rightarrow> int \<Rightarrow> Transaction" where
  "tx i ty a = \<lparr>tx_id = i, tx_type = ty, tx_amount = a, tx_accountId = ''acc1'',
               tx_timestamp = ''2024-01-01T00:00:00Z''\<rparr>"

section \<open>Store calls, one equation each\<close>

lemma getSupabaseClient_ok:
  "client_available e w \<Longrightarrow> getSupabaseClient e w = (Inr (), connect e w)"
  by (cases "supabase w")
     (auto simp: getSupabaseClient_def client_available_def has_credentials_def connect_def)

lemma store_call_eq: "store_call w = (Inr (next_fault w), w\<lparr>faults := tl (faults w)\<rparr>)"
  by (cases "faults w") (auto simp: store_call_def next_fault_def)

lemma console_write_eq: "console_write l w = (Inr (), emit l w)"
  by (simp add: console_write_def emit_def)

lemma connect_fields [simp]:
  "db (connect e w) = db w" "faults (connect e w) = faults w"
  "console (connect e w) = console w" "next_fault (connect e w) = next_fault w"
  "client_available e' (connect e w)"
  by (auto simp: connect_def next_fault_def client_available_def split: option.splits)

lemma after_call_fields [simp]:
  "db (after_call e w) = db w" "faults (after_call e w) = tl (faults w)"
  "console (after_call e w) = console w" "client_available e' (after_call e w)"
  by (auto simp: after_call_def connect_def client_available_def split: option.splits)

lemma connect_absorb [simp]:
  "connect e (connect e w) = connect e w"
  "connect e (after_call e w) = after_call e w"
  "after_call e (connect e w) = after_call e w"
  by (auto simp: connect_def after_call_def split: option.splits)

lemma emit_fields [simp]:
  "db (emit l w) = db w" "faults (emit l w) = faults w"
  "console (emit l w) = console w @ [l]" "next_fault (emit l w) = next_fault w"
  "client_available e (emit l w) = client_available e w"
  by (auto simp: emit_def next_fault_def client_available_def)

lemma insert_row_fields [simp]:
  "transactions (db (insert_row r w)) = transactions (db w) @ [r]"
  "accounts (db (insert_row r w)) = accounts (db w)"
  "faults (insert_row r w) = faults w" "console (insert_row r w) = console w"
  "next_fault (insert_row r w) = next_fault w"
  "client_available e (insert_row r w) = client_available e w"
  by (auto simp: insert_row_def next_fault_def client_available_def)

lemma upsert_account_fields [simp]:
  "transactions (db (upsert_account a b w)) = transactions (db w)"
  "accounts (db (upsert_account a b w)) = (accounts (db w))(a \<mapsto> b)"
  "faults (upsert_account a b w) = faults w" "console (upsert_account a b w) = console w"
  "next_fault (upsert_account a b w) = next_fault w"
  "client_available e (upsert_account a b w) = client_available e w"
  by (auto simp: upsert_account_def next_fault_def client_available_def)

lemma connect_commute [simp]:
  "connect e (emit l w) = emit l (connect e w)"
  "connect e (insert_row r w) = insert_row r (connect e w)"
  "connect e (upsert_account a b w) = upsert_account a b (connect e w)"
  by (auto simp: connect_def emit_def insert_row_def upsert_account_def)

lemma no_faults [simp]:
  "faults w = [] \<Longrightarrow> next_fault w = None"
  "faults w = [] \<Longrightarrow> next_fault (after_call e w) = None"
  by (simp_all add: next_fault_def)

lemma balance_of_fields [simp]:
  "balance_of (db (insert_row r w)) a = balance_of (db w) a"
  "balance_of (db (upsert_account a b w)) a' = (if a' = a then b else balance_of (db w) a')"
  by (auto simp: balance_of_def)

lemma insertTransaction_eq:
  assumes "client_available e w"
  shows "insertTransaction e t w =
     (case next_fault w of
        Some msg \<Rightarrow> (Inl (Error (''Failed to insert transaction: '' @ msg)), after_call e w)
      | None \<Rightarrow>
          if id_exists (db w) (tx_id t)
          then (Inr (), emit (console_log (''Transaction '' @ tx_id t @ '' already exists, skipping''))
                          (after_call e w))
          else (Inr (), insert_row (dbTransaction e t) (after_call e w)))"
  by (simp add: insertTransaction_def bind_def getSupabaseClient_ok[OF assms] store_call_eq
      throw_def console_write_eq after_call_def split: option.splits)

lemma getAccountBalance_eq:
  assumes "client_available e w"
  shows "getAccountBalance e a w =
     (case next_fault w of
        Some msg \<Rightarrow> (Inl (Error (''Failed to get account balance: '' @ msg)), after_call e w)
      | None \<Rightarrow> (Inr (balance_of (db w) a), after_call e w))"
  by (simp add: getAccountBalance_def bind_def getSupabaseClient_ok[OF assms] store_call_eq
      throw_def balance_of_def after_call_def split: option.splits)

lemma updateAccountBalance_eq:
  assumes "client_available e w"
  shows "updateAccountBalance e a b w =
     (case next_fault w of
        Some msg \<Rightarrow> (Inl (Error (''Failed to update account balance: '' @ msg)), after_call e w)
      | None \<Rightarrow> (Inr (), upsert_account a b (after_call e w)))"
  by (simp add: updateAccountBalance_def bind_def getSupabaseClient_ok[OF assms] store_call_eq
      throw_def after_call_def split: option.splits)

lemma incrementAccountBalance_eq:
  assumes "client_available e w"
  shows "incrementAccountBalance e a amount w =
     (case next_fault w of
        Some msg \<Rightarrow> (Inl (Error (''Failed to get account balance: '' @ msg)), after_call e w)
      | None \<Rightarrow>
         (case next_fault (after_call e w) of
            Some msg \<Rightarrow> (Inl (Error (''Failed to update account balance: '' @ msg)),
                          after_call e (after_call e w))
          | None \<Rightarrow> (Inr (), upsert_account a (balance_of (db w) a + amount)
                                (after_call e (after_call e w)))))"
  by (simp add: incrementAccountBalance_def bind_def getSupabaseClient_ok[OF assms]
      getAccountBalance_eq updateAccountBalance_eq split: option.splits)

lemma decrementAccountBalance_eq:
  assumes "client_available e w"
  shows "decrementAccountBalance e a amount w =
     (case next_fault w of
        Some msg \<Rightarrow> (Inl (Error (''Failed to get account balance: '' @ msg)), after_call e w)
      | None \<Rightarrow>
         (case next_fault (after_call e w) of
            Some msg \<Rightarrow> (Inl (Error (''Failed to update account balance: '' @ msg)),
                          after_call e (after_call e w))
          | None \<Rightarrow> (Inr (), upsert_account a (balance_of (db w) a - amount)
                                (after_call e (after_call e w)))))"
  by (simp add: decrementAccountBalance_def bind_def getSupabaseClient_ok[OF assms]
      getAccountBalance_eq updateAccountBalance_eq split: option.splits)

section \<open>The two reservation checks\<close>

lemma pendingAmount_foldl:
  "foldl (\<lambda>pending request.
              if \<not> hasCorrespondingWithdraw ws request
              then pending + row_amount request else pending) acc reqs
   = acc + sum_list (map row_amount (filter (\<lambda>r. \<not> hasCorrespondingWithdraw ws r) reqs))"
  by (induction reqs arbitrary: acc) auto

lemma pendingAmount_sum:
  "pendingAmount reqs ws =
     sum_list (map row_amount (filter (\<lambda>r. \<not> hasCorrespondingWithdraw ws r) reqs))"
  by (simp add: pendingAmount_def pendingAmount_foldl)

lemma hasCorrespondingWithdraw_iff:
  "hasCorrespondingWithdraw ws r =
     (\<exists>w \<in> set ws. sql_ge (row_created_at w) (row_created_at r))"
  by (simp add: hasCorrespondingWithdraw_def list_ex_iff sql_ge_def)

lemma set_select_transactions:
  "set (select_transactions d a ty) =
     {r \<in> set (transactions d). row_account_id r = a \<and> row_type r = ty}"
  by (auto simp: select_transactions_def)

lemma sum_list_filter_sort_key:
  fixes f :: "'a \<Rightarrow> int"
  shows "sum_list (map f (filter P (sort_key k xs))) = sum_list (map f (filter P xs))"
proof -
  have "mset (map f (filter P (sort_key k xs))) = mset (map f (filter P xs))"
    by simp
  then have "sum_mset (mset (map f (filter P (sort_key k xs))))
           = sum_mset (mset (map f (filter P xs)))"
    by (rule arg_cong)
  then show ?thesis by (simp only: sum_mset_sum_list)
qed

lemma fallback_pending_eq_sql:
  "pendingAmount (select_transactions d a ''withdraw_request'')
                 (select_transactions d a ''withdraw'')
   = v_pending_amount d a"
proof -
  let ?ws = "select_transactions d a ''withdraw''"
  have "pendingAmount (select_transactions d a ''withdraw_request'') ?ws
        = sum_list (map row_amount (filter (\<lambda>r. \<not> hasCorrespondingWithdraw ?ws r)
            (filter (\<lambda>r. row_account_id r = a \<and> row_type r = ''withdraw_request'')
               (transactions d))))"
    by (simp add: pendingAmount_sum select_transactions_def[of d a "''withdraw_request''"]
          sum_list_filter_sort_key)
  also have "\<dots> = v_pending_amount d a"
    unfolding v_pending_amount_def filter_filter
    by (rule arg_cong[where f="\<lambda>xs. sum_list (map row_amount xs)"], rule filter_cong)
       (auto simp: hasCorrespondingWithdraw_iff set_select_transactions)
  finally show ?thesis .
qed


lemma v_pending_amount_accounts [simp]:
  "v_pending_amount (d\<lparr>accounts := m\<rparr>) a = v_pending_amount d a"
  by (simp add: v_pending_amount_def)

lemma check_withdraw_request_decision:
  "fst (check_withdraw_request a A d) = (A \<le> balance_of d a - v_pending_amount d a)"
  by (simp add: check_withdraw_request_def balance_of_def split: option.splits)

lemma check_withdraw_request_db:
  "transactions (snd (check_withdraw_request a A d)) = transactions d"
  "balance_of (snd (check_withdraw_request a A d)) a' = balance_of d a'"
  by (auto simp: check_withdraw_request_def balance_of_def split: option.splits)

lemma store_call_after:
  "store_call (after_call e w) = (Inr (next_fault (after_call e w)), after_call e (after_call e w))"
  by (simp add: store_call_eq after_call_def[of e "after_call e w"])

lemma checkAndReserveBalanceFallback_eq:
  assumes "client_available e w"
  shows "checkAndReserveBalanceFallback e a A w =
     (case next_fault w of
        Some msg \<Rightarrow> (Inl (Error (''Failed to get account balance: '' @ msg)), after_call e w)
      | None \<Rightarrow>
        (case next_fault (after_call e w) of
           Some msg \<Rightarrow> (Inl (Error (''Failed to check pending withdraw requests: '' @ msg)),
                         after_call e (after_call e w))
         | None \<Rightarrow>
           (case next_fault (after_call e (after_call e w)) of
              Some msg \<Rightarrow> (Inl (Error (''Failed to check withdraws: '' @ msg)),
                            after_call e (after_call e (after_call e w)))
            | None \<Rightarrow> (Inr (A \<le> balance_of (db w) a - v_pending_amount (db w) a),
                        after_call e (after_call e (after_call e w))))))"
  by (simp add: checkAndReserveBalanceFallback_def bind_def getSupabaseClient_ok[OF assms]
      getAccountBalance_eq store_call_after throw_def Let_def fallback_pending_eq_sql
      split: option.splits)

lemma rpc_result_fields [simp]:
  "transactions (db (rpc_result a A w)) = transactions (db w)"
  "balance_of (db (rpc_result a A w)) a' = balance_of (db w) a'"
  "faults (rpc_result a A w) = faults w" "console (rpc_result a A w) = console w"
  "next_fault (rpc_result a A w) = next_fault w"
  "client_available e (rpc_result a A w) = client_available e w"
  by (auto simp: rpc_result_def next_fault_def client_available_def check_withdraw_request_db)

lemma checkAndReserveBalance_eq:
  assumes "client_available e w"
  shows "checkAndReserveBalance e a A w =
     (case next_fault w of
        Some msg \<Rightarrow>
          checkAndReserveBalanceFallback e a A
            (emit (console_warn ''RPC function not available, using fallback method:'' (Some msg))
               (after_call e w))
      | None \<Rightarrow> (Inr (A \<le> balance_of (db w) a - v_pending_amount (db w) a),
                  rpc_result a A (after_call e w)))"
  by (simp add: checkAndReserveBalance_def bind_def getSupabaseClient_ok[OF assms]
      store_call_eq console_write_eq after_call_def[symmetric] rpc_result_def
      check_withdraw_request_decision[symmetric]
      split: option.splits prod.splits)

section \<open>The handler, case by case\<close>

lemma logged_fields [simp]:
  "transactions (db (logged e t w)) =
     (if id_exists (db w) (tx_id t) then transactions (db w)
      else transactions (db w) @ [dbTransaction e t])"
  "accounts (db (logged e t w)) = accounts (db w)"
  "balance_of (db (logged e t w)) a = balance_of (db w) a"
  "faults (logged e t w) = faults w"
  "next_fault (logged e t w) = next_fault w"
  "client_available e' (logged e t w) = client_available e' w"
  by (auto simp: logged_def)

lemma insertTransaction_logged:
  assumes "client_available e w"
  shows "insertTransaction e t w =
     (case next_fault w of
        Some msg \<Rightarrow> (Inl (Error (''Failed to insert transaction: '' @ msg)), after_call e w)
      | None \<Rightarrow> (Inr (), logged e t (after_call e w)))"
  by (simp add: insertTransaction_eq[OF assms] logged_def split: option.splits)

lemma id_exists_fields [simp]:
  "id_exists (db (after_call e w)) i = id_exists (db w) i"
  by (simp add: id_exists_def)

lemma balance_of_upd:
  "accounts d' = (accounts d)(a \<mapsto> b) \<Longrightarrow> balance_of d' a' = (if a' = a then b else balance_of d a')"
  by (simp add: balance_of_def)

lemma deposit_no_faults:
  assumes "client_available e w" "faults w = []" "tx_type t = ''deposit''"
  shows "fst (post_transaction e t w) = respond 200
       \<and> transactions (db (snd (post_transaction e t w))) =
          (if id_exists (db w) (tx_id t) then transactions (db w)
           else transactions (db w) @ [dbTransaction e t])
       \<and> accounts (db (snd (post_transaction e t w))) =
          (accounts (db w))(tx_accountId t \<mapsto> balance_of (db w) (tx_accountId t) + tx_amount t)
       \<and> faults (snd (post_transaction e t w)) = []
       \<and> client_available e (snd (post_transaction e t w))"
  using assms
  by (simp add: post_transaction_def handler_catch_def transaction_switch_def deposit_case_def
      bind_def return_def console_write_eq insertTransaction_logged incrementAccountBalance_eq
      getAccountBalance_eq)


lemma deposit_500_states:
  assumes "client_available e w" "tx_type t = ''deposit''"
    and "status (fst (post_transaction e t w)) = 500"
  shows "(transactions (db (snd (post_transaction e t w))) = transactions (db w)
          \<and> accounts (db (snd (post_transaction e t w))) = accounts (db w))
       \<or> (transactions (db (snd (post_transaction e t w))) = transactions (db (logged e t w))
          \<and> accounts (db (snd (post_transaction e t w))) = accounts (db w))
       \<or> (transactions (db (snd (post_transaction e t w))) = transactions (db (logged e t w))
          \<and> accounts (db (snd (post_transaction e t w))) =
              (accounts (db w))(tx_accountId t \<mapsto> balance_of (db w) (tx_accountId t) + tx_amount t))"
  using assms
  by (simp add: post_transaction_def handler_catch_def transaction_switch_def deposit_case_def
      bind_def return_def console_write_eq insertTransaction_logged incrementAccountBalance_eq
      getAccountBalance_eq respond_def split: option.splits)

lemma Promise_race_eq:
  assumes "client_available e w"
  shows "Promise_race e check w =
     (case check w of (r, w') \<Rightarrow> if timer_first e then (Inl (Error ''Timeout''), w') else (r, w'))"
  by (simp add: Promise_race_def getSupabaseClient_ok[OF assms])

lemma check_states:
  assumes "client_available e w"
  shows "client_available e (snd (checkAndReserveBalance e a A w))"
    and "transactions (db (snd (checkAndReserveBalance e a A w))) = transactions (db w)"
    and "balance_of (db (snd (checkAndReserveBalance e a A w))) a' = balance_of (db w) a'"
    and "fst (checkAndReserveBalance e a A w) \<noteq> Inl (Error ''Timeout'')"
  using assms
  by (simp_all add: checkAndReserveBalance_eq checkAndReserveBalanceFallback_eq
      split: option.splits)









lemma env0_ready [simp]: "client_available env0 w"
  by (simp add: client_available_def has_credentials_def falsy_def env0_def)

section \<open>Withdrawals are not gated\<close>



section \<open>The reservation decision\<close>



section \<open>The atomic path and the fallback path agree\<close>



section \<open>Amounts are not validated\<close>



section \<open>Resubmission\<close>

lemma get_account_no_faults:
  assumes "client_available e w" and "faults w = []"
  shows "fst (get_account e a w) = (respond 200, Some (balance_of (db w) a))"
  using assms by (simp add: get_account_def getAccountBalance_eq)

text \<open>
  C1. Resubmitting a deposit whose id is already in the log: the first
  submission of deposit \<open>t1\<close> of 100 on the empty store answers 200 and leaves
  balance 100; the second submission of the same transaction answers 200 and
  the log still holds one row, but the balance read by
  \<open>GET /account/acc1\<close> is 200: the amount has been applied a second time.
\<close>

theorem resubmitted_deposit_applied_twice:
  "status (fst (post_transaction env0 (tx ''t1'' ''deposit'' 100) world0)) = 200
   \<and> balance_of (db (snd (post_transaction env0 (tx ''t1'' ''deposit'' 100) world0))) ''acc1'' = 100
   \<and> id_exists (db (snd (post_transaction env0 (tx ''t1'' ''deposit'' 100) world0))) ''t1''
   \<and> status (fst (post_transaction env0 (tx ''t1'' ''deposit'' 100)
                (snd (post_transaction env0 (tx ''t1'' ''deposit'' 100) world0)))) = 200
   \<and> length (transactions (db (snd (post_transaction env0 (tx ''t1'' ''deposit'' 100)
                (snd (post_transaction env0 (tx ''t1'' ''deposit'' 100) world0)))))) = 1
   \<and> fst (get_account env0 ''acc1'' (snd (post_transaction env0 (tx ''t1'' ''deposit'' 100)
                (snd (post_transaction env0 (tx ''t1'' ''deposit'' 100) world0)))))
       = (respond 200, Some 200)"
proof -
  let ?t = "tx ''t1'' ''deposit'' 100"
  let ?w1 = "snd (post_transaction env0 ?t world0)"
  let ?w2 = "snd (post_transaction env0 ?t ?w1)"
  have ty: "tx_type ?t = ''deposit''" by (simp add: tx_def)
  have f0: "faults world0 = []" by (simp add: world0_def)
  have first: "fst (post_transaction env0 ?t world0) = respond 200"
    "transactions (db ?w1) = [dbTransaction env0 ?t]"
    "accounts (db ?w1) = (accounts (db world0))(''acc1'' \<mapsto> 100)"
    "faults ?w1 = []"
    using deposit_no_faults[OF env0_ready f0 ty]
    by (simp_all add: id_exists_def balance_of_def world0_def tx_def)
  have dup: "id_exists (db ?w1) (tx_id ?t)"
    by (simp add: id_exists_def first(2) dbTransaction_def)
  have b1: "balance_of (db ?w1) ''acc1'' = 100"
    by (simp add: balance_of_def first(3))
  have second: "fst (post_transaction env0 ?t ?w1) = respond 200"
    "transactions (db ?w2) = [dbTransaction env0 ?t]"
    "accounts (db ?w2) = (accounts (db ?w1))(''acc1'' \<mapsto> 200)"
    "faults ?w2 = []"
    using deposit_no_faults[OF env0_ready first(4) ty] dup b1 first(2)
    by (simp_all add: tx_def)
  have b2: "balance_of (db ?w2) ''acc1'' = 200"
    by (simp add: balance_of_def second(3))
  show ?thesis
    using first(1) second(1,2) b1 b2 dup get_account_no_faults[OF env0_ready second(4), of "''acc1''"]
    by (simp add: respond_def tx_def)
qed

section \<open>The timer of a withdraw request\<close>

lemma withdraw_request_timeout:
  assumes "client_available e w" and "tx_type t = ''withdraw_request''" and "timer_first e"
  shows "fst (post_transaction e t w) = respond 402"
    and "transactions (db (snd (post_transaction e t w))) = transactions (db w)"
proof -
  obtain r w1 where c: "checkAndReserveBalance e (tx_accountId t) (tx_amount t)
      (emit (console_log (''Checking withdraw_request: '' @ tx_id t))
         (emit (console_log (''Processing transaction: '' @ tx_id t)) w)) = (r, w1)"
    by (cases "checkAndReserveBalance e (tx_accountId t) (tx_amount t)
      (emit (console_log (''Checking withdraw_request: '' @ tx_id t))
         (emit (console_log (''Processing transaction: '' @ tx_id t)) w))") auto
  have tr: "transactions (db w1) = transactions (db w)"
    using check_states(2)[of e "emit (console_log (''Checking withdraw_request: '' @ tx_id t))
         (emit (console_log (''Processing transaction: '' @ tx_id t)) w)" "tx_accountId t" "tx_amount t"]
      assms(1) c by simp
  have sw: "transaction_switch e t w =
      (Inr (respond 402), emit (console_warn (''Withdraw request TIMEOUT: '' @ tx_id t) None) w1)"
    using assms c
    by (simp add: transaction_switch_def withdraw_request_case_def withdraw_request_try_def
        Promise_race_eq bind_def return_def console_write_eq)
  show "fst (post_transaction e t w) = respond 402"
    by (simp add: post_transaction_def handler_catch_def sw)
  show "transactions (db (snd (post_transaction e t w))) = transactions (db w)"
    by (simp add: post_transaction_def handler_catch_def sw tr)
qed

text \<open>
  C3. A withdraw request whose timer fires before the reservation check
  settles: request \<open>t3\<close> for 10 on an account with balance 100 and 60 pending
  is answered 402, and the log is what it was before the request; no row with
  id \<open>t3\<close> has been recorded.
\<close>

theorem timed_out_request_not_logged:
  "status (fst (post_transaction (env0\<lparr>timer_first := True\<rparr>)
                  (tx ''t3'' ''withdraw_request'' 10) world1)) = 402
   \<and> transactions (db (snd (post_transaction (env0\<lparr>timer_first := True\<rparr>)
                  (tx ''t3'' ''withdraw_request'' 10) world1))) = transactions (db world1)
   \<and> \<not> id_exists (db (snd (post_transaction (env0\<lparr>timer_first := True\<rparr>)
                  (tx ''t3'' ''withdraw_request'' 10) world1))) ''t3''"
proof -
  have h1: "client_available (env0\<lparr>timer_first := True\<rparr>) world1"
    by (simp add: client_available_def has_credentials_def falsy_def env0_def)
  have h2: "tx_type (tx ''t3'' ''withdraw_request'' 10) = ''withdraw_request''"
    by (simp add: tx_def)
  have h3: "timer_first (env0\<lparr>timer_first := True\<rparr>)" by simp
  from withdraw_request_timeout[OF h1 h2 h3] show ?thesis
    by (simp add: respond_def id_exists_def) (simp add: world1_def)
qed

section \<open>Failures of the store and of the configuration\<close>

lemma getSupabaseClient_missing:
  "\<not> client_available e w \<Longrightarrow>
     getSupabaseClient e w = (Inl (Error missing_credentials), w)"
  by (simp add: getSupabaseClient_def client_available_def has_credentials_def throw_def
      missing_credentials_def)

lemma no_client:
  assumes "\<not> client_available e w"
  shows "insertTransaction e t w = (Inl (Error missing_credentials), w)"
    and "checkAndReserveBalance e a A w = (Inl (Error missing_credentials), w)"
    and "Promise_race e (checkAndReserveBalance e a A) w = (Inl (Error missing_credentials), w)"
  by (simp_all add: insertTransaction_def checkAndReserveBalance_def Promise_race_def bind_def
      getSupabaseClient_missing[OF assms])

lemma missing_ne_timeout: "missing_credentials \<noteq> ''Timeout''"
  by (simp add: missing_credentials_def)

lemma supabase_emit [simp]: "supabase (emit l w) = supabase w"
  by (simp add: emit_def)

lemma switch_no_client:
  assumes "\<not> client_available e w" and "recognized (tx_type t)"
  shows "fst (transaction_switch e t w) = Inl (Error missing_credentials)"
    and "db (snd (transaction_switch e t w)) = db w"
    and "supabase (snd (transaction_switch e t w)) = supabase w"
  using assms
  by (auto simp: recognized_def transaction_switch_def deposit_case_def withdraw_case_def
      withdraw_request_case_def withdraw_request_try_def bind_def console_write_eq no_client
      missing_ne_timeout throw_def)

lemma post_no_client:
  assumes "\<not> client_available e w" and "recognized (tx_type t)"
  shows "fst (post_transaction e t w) =
           \<lparr>status = 500, message = Some ''Internal server error'',
            error_detail = Some missing_credentials\<rparr>"
    and "db (snd (post_transaction e t w)) = db w"
    and "supabase (snd (post_transaction e t w)) = supabase w"
proof -
  obtain w1 where sw: "transaction_switch e t w = (Inl (Error missing_credentials), w1)"
    using switch_no_client(1)[OF assms] by (cases "transaction_switch e t w") auto
  have "db w1 = db w" "supabase w1 = supabase w"
    using switch_no_client(2,3)[OF assms] sw by simp_all
  then show "fst (post_transaction e t w) =
           \<lparr>status = 500, message = Some ''Internal server error'',
            error_detail = Some missing_credentials\<rparr>"
    and "db (snd (post_transaction e t w)) = db w"
    and "supabase (snd (post_transaction e t w)) = supabase w"
    by (simp_all add: post_transaction_def handler_catch_def sw)
qed

lemmas handler_simps = post_transaction_def handler_catch_def transaction_switch_def
  deposit_case_def withdraw_case_def bind_def return_def console_write_eq
  insertTransaction_logged incrementAccountBalance_eq decrementAccountBalance_eq
  getAccountBalance_eq respond_def

lemma withdraw_500_states:
  assumes "client_available e w" "tx_type t = ''withdraw''"
    and "status (fst (post_transaction e t w)) = 500"
  shows "(transactions (db (snd (post_transaction e t w))) = transactions (db w)
          \<and> accounts (db (snd (post_transaction e t w))) = accounts (db w))
       \<or> (transactions (db (snd (post_transaction e t w))) = transactions (db (logged e t w))
          \<and> accounts (db (snd (post_transaction e t w))) = accounts (db w))
       \<or> (transactions (db (snd (post_transaction e t w))) = transactions (db (logged e t w))
          \<and> accounts (db (snd (post_transaction e t w))) =
              (accounts (db w))(tx_accountId t \<mapsto> balance_of (db w) (tx_accountId t) - tx_amount t))"
  using assms
  by (simp add: handler_simps split: option.splits)

text \<open>
  C7 (as the code has it). A deposit or withdraw answered 500 leaves the store
  in one of three states: unchanged (the append failed, or no client could be
  created); the transaction in the log and the balance as before (the balance
  read or the balance write failed after the append); or the transaction in
  the log and the balance changed by the full amount (only the handler's last
  balance read failed). The balance is never changed by a request whose id is
  not in the log.
\<close>

theorem store_error_states:
  assumes "tx_type t = ''deposit'' \<or> tx_type t = ''withdraw''"
    and "status (fst (post_transaction e t w)) = 500"
  shows "(transactions (db (snd (post_transaction e t w))) = transactions (db w)
          \<and> accounts (db (snd (post_transaction e t w))) = accounts (db w))
       \<or> (id_exists (db (snd (post_transaction e t w))) (tx_id t)
          \<and> transactions (db (snd (post_transaction e t w))) = transactions (db (logged e t w))
          \<and> accounts (db (snd (post_transaction e t w))) = accounts (db w))
       \<or> (id_exists (db (snd (post_transaction e t w))) (tx_id t)
          \<and> transactions (db (snd (post_transaction e t w))) = transactions (db (logged e t w))
          \<and> accounts (db (snd (post_transaction e t w))) =
              (accounts (db w))(tx_accountId t \<mapsto> balance_of (db w) (tx_accountId t) + delta t))"
proof (cases "client_available e w")
  case False
  have "recognized (tx_type t)" using assms(1) by (auto simp: recognized_def)
  from post_no_client(2)[OF False this] show ?thesis by simp
next
  case True
  let ?w' = "snd (post_transaction e t w)"
  have logged_id: "id_exists (db ?w') (tx_id t)"
    if "transactions (db ?w') = transactions (db (logged e t w))"
    unfolding id_exists_def that by (simp add: dbTransaction_def id_exists_def)
  from assms(1) show ?thesis
  proof
    assume ty: "tx_type t = ''deposit''"
    then have d: "balance_of (db w) (tx_accountId t) + delta t
                = balance_of (db w) (tx_accountId t) + tx_amount t"
      by (simp add: delta_def)
    from deposit_500_states[OF True ty assms(2)] show ?thesis
      unfolding d using logged_id by blast
  next
    assume ty: "tx_type t = ''withdraw''"
    then have d: "balance_of (db w) (tx_accountId t) + delta t
                = balance_of (db w) (tx_accountId t) - tx_amount t"
      by (simp add: delta_def)
    from withdraw_500_states[OF True ty assms(2)] show ?thesis
      unfolding d using logged_id by blast
  qed
qed

text \<open>
  C7 as written fails: with the append succeeding and the balance read
  of \<open>incrementAccountBalance\<close> failing, deposit \<open>t1\<close> is answered 500 while
  the log holds \<open>t1\<close> and the balance is still 0.
\<close>

theorem store_error_partial_state:
  "status (fst (post_transaction env0 (tx ''t1'' ''deposit'' 100)
             (world0\<lparr>faults := [None, Some ''connection lost'']\<rparr>))) = 500
   \<and> id_exists (db (snd (post_transaction env0 (tx ''t1'' ''deposit'' 100)
             (world0\<lparr>faults := [None, Some ''connection lost'']\<rparr>)))) ''t1''
   \<and> balance_of (db (snd (post_transaction env0 (tx ''t1'' ''deposit'' 100)
             (world0\<lparr>faults := [None, Some ''connection lost'']\<rparr>)))) ''acc1'' = 0"
  by (simp add: handler_simps next_fault_def id_exists_def logged_def tx_def dbTransaction_def
      balance_of_def world0_def)

theorem store_error_states_witness:
  "(tx_type (tx ''t5'' ''withdraw'' 20) = ''deposit'' \<or> tx_type (tx ''t5'' ''withdraw'' 20) = ''withdraw'')
   \<and> status (fst (post_transaction env0 (tx ''t5'' ''withdraw'' 20)
               (world1\<lparr>faults := [None, None, Some ''connection lost'']\<rparr>))) = 500
   \<and> length (transactions (db (snd (post_transaction env0 (tx ''t5'' ''withdraw'' 20)
               (world1\<lparr>faults := [None, None, Some ''connection lost'']\<rparr>))))) = 2
   \<and> id_exists (db (snd (post_transaction env0 (tx ''t5'' ''withdraw'' 20)
               (world1\<lparr>faults := [None, None, Some ''connection lost'']\<rparr>)))) ''t5''"
proof -
  let ?t = "tx ''t5'' ''withdraw'' 20"
  let ?w = "world1\<lparr>faults := [None, None, Some ''connection lost'']\<rparr>"
  let ?w' = "snd (post_transaction env0 ?t ?w)"
  have h1: "tx_type ?t = ''deposit'' \<or> tx_type ?t = ''withdraw''" by (simp add: tx_def)
  have ex: "\<not> id_exists (db ?w) (tx_id ?t)"
    by (simp add: id_exists_def tx_def world1_def)
  have post: "post_transaction env0 ?t ?w =
    (\<lparr>status = 500, message = Some ''Internal server error'',
      error_detail = Some ''Failed to update account balance: connection lost''\<rparr>,
     emit (console_error ''Error processing transaction t5:''
             ''Failed to update account balance: connection lost'')
       (after_call env0 (after_call env0
          (emit (console_log ''Transaction t5 inserted into log'')
             (logged env0 ?t (after_call env0
                (emit (console_log ''Processing transaction: t5'') ?w)))))))"
    by (simp add: handler_simps next_fault_def) (simp add: tx_def emit_def)
  have h2: "status (fst (post_transaction env0 ?t ?w)) = 500"
    by (simp add: post)
  have len: "length (transactions (db ?w')) = 2"
    using ex by (simp add: post) (simp add: world1_def)
  have "length (transactions (db ?w)) = 1" by (simp add: world1_def)
  with len have tr: "transactions (db ?w') \<noteq> transactions (db ?w)"
    by auto
  from store_error_states[OF h1 h2] tr have "id_exists (db ?w') (tx_id ?t)"
    by blast
  with h1 h2 len show ?thesis by (simp add: tx_def)
qed

section \<open>Missing configuration\<close>

text \<open>
  C8 (as the code has it). Missing credentials are not checked at startup:
  the server starts and its banner reports \<open>NOT SET\<close>. The client is created
  on first use, so from then on every transaction of a recognized type is
  answered 500 with the message of \<open>getSupabaseClient\<close>, the store is not
  touched and the client stays uncreated.
\<close>

theorem missing_configuration_fails_per_request:
  assumes "\<not> has_credentials e" and "recognized (tx_type t)"
  shows "fst (app_listen e w) = Inr ()
       \<and> supabase (snd (app_listen e w)) = None
       \<and> (console_log ''Supabase URL: NOT SET'' \<in> set (console (snd (app_listen e w)))
          \<or> console_log ''Supabase Key: NOT SET'' \<in> set (console (snd (app_listen e w))))
       \<and> (\<forall>w'. supabase w' = None \<longrightarrow>
             fst (post_transaction e t w') =
               \<lparr>status = 500, message = Some ''Internal server error'',
                error_detail = Some missing_credentials\<rparr>
           \<and> db (snd (post_transaction e t w')) = db w'
           \<and> supabase (snd (post_transaction e t w')) = None)"
proof -
  have banner: "console_log ''Supabase URL: NOT SET'' \<in> set (console (snd (app_listen e w)))
          \<or> console_log ''Supabase Key: NOT SET'' \<in> set (console (snd (app_listen e w)))"
    using assms(1) by (auto simp: app_listen_def configured_def has_credentials_def)
  have later: "fst (post_transaction e t w') =
               \<lparr>status = 500, message = Some ''Internal server error'',
                error_detail = Some missing_credentials\<rparr>
           \<and> db (snd (post_transaction e t w')) = db w'
           \<and> supabase (snd (post_transaction e t w')) = None" if "supabase w' = None" for w'
  proof -
    have "\<not> client_available e w'" using that assms(1) by (simp add: client_available_def)
    from post_no_client[OF this assms(2)] that show ?thesis by simp
  qed
  show ?thesis using banner later by (simp add: app_listen_def)
qed

text \<open>
  C8 as written fails: without credentials the server starts, and the
  first deposit is answered 500.
\<close>

theorem missing_configuration_starts:
  "fst (app_listen env_missing world0) = Inr ()
   \<and> status (fst (post_transaction env_missing (tx ''t1'' ''deposit'' 100)
               (snd (app_listen env_missing world0)))) = 500
   \<and> error_detail (fst (post_transaction env_missing (tx ''t1'' ''deposit'' 100)
               (snd (app_listen env_missing world0)))) =
       Some ''Missing Supabase credentials: SUPABASE_URL and SUPABASE_SERVICE_ROLE_KEY must be set''"
proof -
  have na: "\<not> client_available env_missing (snd (app_listen env_missing world0))"
    by (simp add: client_available_def has_credentials_def falsy_def env_missing_def env0_def
        app_listen_def)
  have r: "recognized (tx_type (tx ''t1'' ''deposit'' 100))"
    by (simp add: recognized_def tx_def)
  show ?thesis
    by (simp add: post_no_client(1)[OF na r] missing_credentials_def) (simp add: app_listen_def)
qed

theorem missing_configuration_fails_per_request_witness:
  "\<not> has_credentials env_missing
   \<and> recognized (tx_type (tx ''t6'' ''withdraw_request'' 5))
   \<and> fst (app_listen env_missing world0) = Inr ()
   \<and> supabase (snd (app_listen env_missing world0)) = None
   \<and> status (fst (post_transaction env_missing (tx ''t6'' ''withdraw_request'' 5)
               (snd (app_listen env_missing world0)))) = 500
   \<and> db (snd (post_transaction env_missing (tx ''t6'' ''withdraw_request'' 5)
               (snd (app_listen env_missing world0)))) = db world0"
proof -
  have h1: "\<not> has_credentials env_missing"
    by (simp add: has_credentials_def falsy_def env_missing_def env0_def)
  have h2: "recognized (tx_type (tx ''t6'' ''withdraw_request'' 5))"
    by (simp add: recognized_def tx_def)
  have d: "db (snd (app_listen env_missing world0)) = db world0"
    by (simp add: app_listen_def)
  from missing_configuration_fails_per_request[OF h1 h2, of world0] h1 h2 d
  show ?thesis by simp
qed

section \<open>A reservation check that fails\<close>

lemma after_call_commute [simp]:
  "after_call e (emit l w) = emit l (after_call e w)"
  "after_call e (insert_row r w) = insert_row r (after_call e w)"
  "after_call e (upsert_account a b w) = upsert_account a b (after_call e w)"
  "after_call e (rpc_result a A w) = rpc_result a A (after_call e w)"
  by (auto simp: after_call_def connect_def emit_def insert_row_def upsert_account_def
      rpc_result_def)




lemma console_logged: "set (console w) \<subseteq> set (console (logged e t w))"
  by (auto simp: logged_def)













section \<open>Interleaved balance updates\<close>

lemma task_await_eq:
  "task_await t (r, w') k =
     (case r of
        Inl err \<Rightarrow> (Responded (fst (handler_catch t (Inl err, w'))), snd (handler_catch t (Inl err, w')))
      | Inr x \<Rightarrow> (k x, w'))"
  by (simp add: task_await_def split: sum.splits prod.splits)

lemma handler_catch_Inr [simp]: "handler_catch t (Inr r, w) = (r, w)"
  by (simp add: handler_catch_def)

text \<open>
  Run alone, a task is the handler: four steps of a deposit or withdraw task
  give the response and the state of \<open>post_transaction\<close>.
\<close>

lemma task_alone_is_handler:
  assumes "tx_type t = ''deposit'' \<or> tx_type t = ''withdraw''"
  shows "run e [0, 0, 0, 0] [Start t] w =
           ([Responded (fst (post_transaction e t w))], snd (post_transaction e t w))"
proof -
  let ?w0 = "emit (console_log (''Processing transaction: '' @ tx_id t)) w"
  obtain r1 w1 where s1: "insertTransaction e t ?w0 = (r1, w1)"
    by (cases "insertTransaction e t ?w0") auto
  let ?w1' = "emit (console_log (''Transaction '' @ tx_id t @ '' inserted into log'')) w1"
  obtain r2 w2 where s2: "getSupabaseClient e ?w1' = (r2, w2)"
    by (cases "getSupabaseClient e ?w1'") auto
  obtain r3 w3 where s3: "getAccountBalance e (tx_accountId t) w2 = (r3, w3)"
    by (cases "getAccountBalance e (tx_accountId t) w2") auto
  obtain r4 w4 where s4: "updateAccountBalance e (tx_accountId t)
        (case r3 of Inr c \<Rightarrow> (if tx_type t = ''deposit'' then c + tx_amount t else c - tx_amount t)
                  | Inl _ \<Rightarrow> 0) w3 = (r4, w4)"
    by (cases "updateAccountBalance e (tx_accountId t)
        (case r3 of Inr c \<Rightarrow> (if tx_type t = ''deposit'' then c + tx_amount t else c - tx_amount t)
                  | Inl _ \<Rightarrow> 0) w3") auto
  obtain r5 w5 where s5: "getAccountBalance e (tx_accountId t) w4 = (r5, w5)"
    by (cases "getAccountBalance e (tx_accountId t) w4") auto
  from assms show ?thesis
  proof
    assume ty: "tx_type t = ''deposit''"
    show ?thesis
      using s1 s2 s3 s4 s5
      by (simp add: ty task_step_def task_await_eq post_transaction_def transaction_switch_def
          deposit_case_def incrementAccountBalance_def bind_def console_write_eq return_def
          split: sum.splits)
  next
    assume ty: "tx_type t = ''withdraw''"
    show ?thesis
      using s1 s2 s3 s4 s5
      by (simp add: ty task_step_def task_await_eq post_transaction_def transaction_switch_def
          withdraw_case_def decrementAccountBalance_def bind_def console_write_eq return_def
          split: sum.splits)
  qed
qed

lemma task_step_ok:
  assumes "client_available e w" and "next_fault w = None"
    and "tx_type t = ''deposit'' \<or> tx_type t = ''withdraw''"
  shows "task_step e (Start t) w =
           (Inserted t,
            emit (console_log (''Transaction '' @ tx_id t @ '' inserted into log''))
              (logged e t (after_call e
                 (emit (console_log (''Processing transaction: '' @ tx_id t)) w))))"
    and "task_step e (Inserted t) w =
           (Balance_read t (balance_of (db w) (tx_accountId t)), after_call e w)"
    and "task_step e (Balance_read t c) w =
           (Balance_written t,
            upsert_account (tx_accountId t)
              (if tx_type t = ''deposit'' then c + tx_amount t else c - tx_amount t)
              (after_call e w))"
    and "task_step e (Balance_written t) w =
           (Responded (respond 200),
            emit (console_log ((if tx_type t = ''deposit'' then ''Deposit successful: ''
                                else ''Withdraw successful: '') @ tx_id t))
              (after_call e w))"
  using assms
  by (auto simp: task_step_def task_await_eq bind_def console_write_eq return_def
      insertTransaction_logged getSupabaseClient_ok getAccountBalance_eq updateAccountBalance_eq)

lemma world0_no_faults [simp]: "faults world0 = []"
  by (simp add: world0_def)

lemma no_faults_tl [simp]: "faults w = [] \<Longrightarrow> next_fault (after_call e (after_call e w)) = None"
  by (simp add: next_fault_def)

text \<open>
  C4. Two deposits on the empty account \<open>acc1\<close>, \<open>d1\<close> of 100 and \<open>d2\<close> of 50,
  handled together with their store calls alternating: both are answered 200
  and both are in the log, and the balance is 50, not 150; the increment of
  \<open>d1\<close> is lost, because both read balance 0 before either writes. Handled
  one after the other, the same deposits leave 150.
\<close>

theorem interleaved_deposits_lose_update:
  "fst (run env0 [0, 1, 0, 1, 0, 1, 0, 1]
          [Start (tx ''d1'' ''deposit'' 100), Start (tx ''d2'' ''deposit'' 50)] world0)
     = [Responded (respond 200), Responded (respond 200)]
   \<and> id_exists (db (snd (run env0 [0, 1, 0, 1, 0, 1, 0, 1]
          [Start (tx ''d1'' ''deposit'' 100), Start (tx ''d2'' ''deposit'' 50)] world0))) ''d1''
   \<and> id_exists (db (snd (run env0 [0, 1, 0, 1, 0, 1, 0, 1]
          [Start (tx ''d1'' ''deposit'' 100), Start (tx ''d2'' ''deposit'' 50)] world0))) ''d2''
   \<and> balance_of (db (snd (run env0 [0, 1, 0, 1, 0, 1, 0, 1]
          [Start (tx ''d1'' ''deposit'' 100), Start (tx ''d2'' ''deposit'' 50)] world0))) ''acc1'' = 50
   \<and> balance_of (db (snd (run env0 [0, 0, 0, 0, 1, 1, 1, 1]
          [Start (tx ''d1'' ''deposit'' 100), Start (tx ''d2'' ''deposit'' 50)] world0))) ''acc1'' = 150"
proof -
  have ty: "tx_type (tx i ''deposit'' a) = ''deposit'' \<or> tx_type (tx i ''deposit'' a) = ''withdraw''"
    for i a by (simp add: tx_def)
  note step = task_step_ok[OF env0_ready _ ty]
  have inter: "run env0 [0, 1, 0, 1, 0, 1, 0, 1]
          [Start (tx ''d1'' ''deposit'' 100), Start (tx ''d2'' ''deposit'' 50)] world0
      = ([Responded (respond 200), Responded (respond 200)],
         emit (console_log ''Deposit successful: d2'') (after_call env0
         (emit (console_log ''Deposit successful: d1'') (after_call env0
         (upsert_account ''acc1'' 50 (after_call env0
         (upsert_account ''acc1'' 100 (after_call env0
         (after_call env0 (after_call env0
         (emit (console_log ''Transaction d2 inserted into log'')
         (logged env0 (tx ''d2'' ''deposit'' 50) (after_call env0
         (emit (console_log ''Processing transaction: d2'')
         (emit (console_log ''Transaction d1 inserted into log'')
         (logged env0 (tx ''d1'' ''deposit'' 100) (after_call env0
         (emit (console_log ''Processing transaction: d1'') world0))))))))))))))))))"
    by (simp add: step balance_of_def) (simp add: tx_def world0_def)
  have seq: "balance_of (db (snd (run env0 [0, 0, 0, 0, 1, 1, 1, 1]
          [Start (tx ''d1'' ''deposit'' 100), Start (tx ''d2'' ''deposit'' 50)] world0))) ''acc1'' = 150"
    by (simp add: step) (simp add: tx_def world0_def balance_of_def)
  have ids: "id_exists (db (snd (run env0 [0, 1, 0, 1, 0, 1, 0, 1]
          [Start (tx ''d1'' ''deposit'' 100), Start (tx ''d2'' ''deposit'' 50)] world0))) ''d1''"
     "id_exists (db (snd (run env0 [0, 1, 0, 1, 0, 1, 0, 1]
          [Start (tx ''d1'' ''deposit'' 100), Start (tx ''d2'' ''deposit'' 50)] world0))) ''d2''"
    unfolding inter
    by (simp_all add: id_exists_def dbTransaction_def tx_def world0_def)
  have bal: "balance_of (db (snd (run env0 [0, 1, 0, 1, 0, 1, 0, 1]
          [Start (tx ''d1'' ''deposit'' 100), Start (tx ''d2'' ''deposit'' 50)] world0))) ''acc1'' = 50"
    unfolding inter by simp
  have answers: "fst (run env0 [0, 1, 0, 1, 0, 1, 0, 1]
          [Start (tx ''d1'' ''deposit'' 100), Start (tx ''d2'' ''deposit'' 50)] world0)
     = [Responded (respond 200), Responded (respond 200)]"
    unfolding inter by simp
  show ?thesis by (intro conjI answers ids bal seq)
qed

end
